theory Spec2Isabelle
  imports Main
begin

section \<open>The lyrics cache and resolver of deadbeef-lyricbar (src/utils.cpp)\<close>

text \<open>
  A shallow embedding of \<^verbatim>\<open>utils.cpp\<close>. C strings (\<^verbatim>\<open>const char *\<close>) are
  \<open>string option\<close>, \<open>None\<close> being the null pointer; \<open>std::string\<close> and
  \<open>Glib::ustring\<close> are byte strings (\<open>string\<close>). The file system, the user
  interface and the standard error stream are an explicit state, the \<open>world\<close>, that
  every effectful function takes and returns. The player's API (the \<^verbatim>\<open>deadbeef\<close>
  function table), GLib and the process environment are a record of functions, the
  \<open>host\<close>.
\<close>

subsection \<open>The host: player API, GLib, environment\<close>

type_synonym track = nat
  \<comment> \<open>\<^verbatim>\<open>DB_playItem_t *\<close>: an opaque handle owned by the player\<close>

type_synonym bytecode = string
  \<comment> \<open>what \<^verbatim>\<open>tf_compile\<close> returns for a title-formatting script\<close>

datatype spawn_result =
    SpawnError string
  | Exited string int
  \<comment> \<open>\<^verbatim>\<open>spawn_command_line_sync\<close>: a thrown \<^verbatim>\<open>Glib::Error\<close> with its message,
      or the captured standard output and the exit status\<close>

record host =
  lyrics_dir :: string
  pl_find_meta :: "track \<Rightarrow> string \<Rightarrow> string option"
  conf_get_str :: "string \<Rightarrow> string option \<Rightarrow> nat \<Rightarrow> string"
  tf_compile :: "string \<Rightarrow> bytecode option"
  tf_eval :: "bytecode \<Rightarrow> track \<Rightarrow> nat \<Rightarrow> int \<times> string"
  spawn_command_line_sync :: "string \<Rightarrow> spawn_result"
  validate :: "string \<Rightarrow> bool"

text \<open>
  None of these is defined in the repository; each is a parameter of the model.
  \<^item> \<open>lyrics_dir\<close> is the value of the static global of that name, fixed when the
    plugin is loaded (the cache directory, with its trailing slash).
  \<^item> \<open>pl_find_meta\<close> is the player's metadata lookup; it returns a null pointer for a
    field the track does not have.
  \<^item> \<open>conf_get_str key default size\<close> is the C string the player leaves in a buffer of
    \<open>size\<close> bytes for a configuration key (the empty string for a key that is unset
    when the default is null).
  \<^item> \<open>tf_compile\<close> is the player's title-formatting compiler (null on a malformed
    script); \<open>tf_eval code track size\<close> is the evaluation of a compiled script on a
    track into a buffer of \<open>size\<close> bytes: the returned length (negative on an error)
    and the C string left in the buffer.
  \<^item> \<open>spawn_command_line_sync\<close> and \<open>validate\<close> are GLib's: running a command line,
    and \<^verbatim>\<open>ustring::validate\<close> (is the byte string valid UTF-8).
  The subprocess is taken not to touch the lyrics cache itself, and the scoped playlist
  lock (\<^verbatim>\<open>pl_lock_guard\<close>) has no counterpart: the model is sequential.
\<close>

subsection \<open>The world: files, user interface, diagnostics\<close>

datatype event =
    SetLyrics track string
  | Cerr string
  | TfCompile string
  | Spawn string
  | Access string
  | ReadFile string
  | OpenWrite string bool
  | WriteFile string string

text \<open>
  The events are the observable actions, in the order in which they happen:
  \<open>SetLyrics\<close> is a call of \<^verbatim>\<open>set_lyrics\<close> (the push of a text to the lyrics view),
  \<open>Cerr\<close> a line written to \<^verbatim>\<open>std::cerr\<close>, \<open>TfCompile\<close> and \<open>Spawn\<close> the string
  handed to the player's compiler and to GLib's process spawner, and the last four the
  calls that touch the file system, with the path (\<open>OpenWrite\<close> with whether the open
  succeeded, \<open>WriteFile\<close> with the bytes that reached the file).
\<close>

record world =
  files :: "string \<Rightarrow> string option"
  openable :: "string \<Rightarrow> bool"
  readable :: "string \<Rightarrow> bool"
  quota :: nat
  trace :: "event list"

text \<open>
  \<open>files\<close> maps a path to the content of the file there. \<open>openable\<close> says whether
  opening a path for writing succeeds (it fails for a missing or read-only directory, a
  read-only file, a name that is too long). \<open>readable\<close> says whether reading the file
  at a path succeeds when there is one (it fails for an entry without read permission,
  as one created under a umask that clears it). \<open>quota\<close> is the number of bytes the device
  still accepts from one stream: a longer write stores that prefix and puts the stream in
  its failed state.
\<close>

definition emit :: "event list \<Rightarrow> world \<Rightarrow> world" where
  "emit es w = w\<lparr>trace := trace w @ es\<rparr>"

definition access_path :: "string \<Rightarrow> world \<Rightarrow> bool \<times> world" where
  \<comment> \<open>\<^verbatim>\<open>access(path, 0) == 0\<close>\<close>
  "access_path p w = (files w p \<noteq> None, emit [Access p] w)"

datatype file_error = FileError

definition file_get_contents :: "string \<Rightarrow> world \<Rightarrow> (file_error + string) \<times> world" where
  \<comment> \<open>\<^verbatim>\<open>Glib::file_get_contents\<close>: the whole content, or a thrown \<^verbatim>\<open>FileError\<close>
      (no file at the path, or a file that cannot be read)\<close>
  "file_get_contents p w =
     (case files w p of
        None \<Rightarrow> (Inl FileError, emit [ReadFile p] w)
      | Some s \<Rightarrow>
          if readable w p then (Inr s, emit [ReadFile p] w)
          else (Inl FileError, emit [ReadFile p] w))"

definition ofstream_open :: "string \<Rightarrow> world \<Rightarrow> bool \<times> world" where
  \<comment> \<open>\<^verbatim>\<open>ofstream t(filename)\<close>: creates or truncates the file; the result is the
      stream's state\<close>
  "ofstream_open p w =
     (if openable w p
      then (True, emit [OpenWrite p True] (w\<lparr>files := (files w)(p \<mapsto> [])\<rparr>))
      else (False, emit [OpenWrite p False] w))"

definition ofstream_write :: "string \<Rightarrow> string \<Rightarrow> world \<Rightarrow> bool \<times> world" where
  \<comment> \<open>\<^verbatim>\<open>t << s\<close> on a stream opened on \<open>p\<close>, flushed when the stream is destroyed; the
      result is the stream's state\<close>
  "ofstream_write p s w =
     (length s \<le> quota w,
      emit [WriteFile p (take (quota w) s)] (w\<lparr>files := (files w)(p \<mapsto> take (quota w) s)\<rparr>))"

definition set_lyrics :: "track \<Rightarrow> string \<Rightarrow> world \<Rightarrow> world" where
  \<comment> \<open>Modelled from the spec: \<^verbatim>\<open>set_lyrics\<close> is declared in ui.h and defined outside
      utils.cpp; it is the fire-and-forget push of a text to the lyrics view\<close>
  "set_lyrics tr text w = emit [SetLyrics tr text] w"

subsection \<open>The cache\<close>

fun replace :: "string \<Rightarrow> char \<Rightarrow> char \<Rightarrow> string" where
  \<comment> \<open>\<^verbatim>\<open>std::replace(s.begin(), s.end(), old, new)\<close>\<close>
  "replace [] old new = []"
| "replace (c # cs) old new = (if c = old then new else c) # replace cs old new"

definition cached_filename :: "host \<Rightarrow> string \<Rightarrow> string \<Rightarrow> string" where
  "cached_filename h artist title =
     (let artist = replace artist (CHR ''/'') (CHR ''_'');
          title = replace title (CHR ''/'') (CHR ''_'')
      in lyrics_dir h @ artist @ [CHR ''-''] @ title)"

definition is_cached :: "host \<Rightarrow> string option \<Rightarrow> string option \<Rightarrow> world \<Rightarrow> bool \<times> world" where
  \<comment> \<open>\<^verbatim>\<open>artist && title && access(...) == 0\<close>, evaluated from the left\<close>
  "is_cached h artist title w =
     (case artist of
        None \<Rightarrow> (False, w)
      | Some a \<Rightarrow>
          (case title of
             None \<Rightarrow> (False, w)
           | Some t \<Rightarrow> access_path (cached_filename h a t) w))"

definition load_cached_lyrics :: "host \<Rightarrow> string \<Rightarrow> string \<Rightarrow> world \<Rightarrow> string option \<times> world" where
  \<comment> \<open>the two lines to \<^verbatim>\<open>debug_out\<close> are left out\<close>
  "load_cached_lyrics h artist title w =
     (let filename = cached_filename h artist title
      in case file_get_contents filename w of
           (Inr s, w') \<Rightarrow> (Some s, w')
         | (Inl error, w') \<Rightarrow> (None, w'))"

definition save_cached_lyrics :: "host \<Rightarrow> string \<Rightarrow> string \<Rightarrow> string \<Rightarrow> world \<Rightarrow> bool \<times> world" where
  "save_cached_lyrics h artist title lyrics w =
     (let filename = cached_filename h artist title
      in case ofstream_open filename w of
           (False, w1) \<Rightarrow>
             (False,
              emit [Cerr (''lyricbar: could not open file for writing: '' @ filename @ [CHR 0x0A])] w1)
         | (True, w1) \<Rightarrow>
             (case ofstream_write filename lyrics w1 of (t, w2) \<Rightarrow> (True, w2)))"

subsection \<open>Lyrics from the metadata and from the script\<close>

definition get_lyrics_from_metadata :: "host \<Rightarrow> track \<Rightarrow> string option" where
  "get_lyrics_from_metadata h tr =
     (case pl_find_meta h tr ''unsynced lyrics'' of
        Some lyrics \<Rightarrow> Some lyrics
      | None \<Rightarrow>
          (case pl_find_meta h tr ''UNSYNCEDLYRICS'' of
             Some lyrics \<Rightarrow> Some lyrics
           | None \<Rightarrow>
               (case pl_find_meta h tr ''lyrics'' of
                  Some lyrics \<Rightarrow> Some lyrics
                | None \<Rightarrow> None)))"

definition buffer_store :: "string \<Rightarrow> string \<Rightarrow> string" where
  \<comment> \<open>the bytes of the buffer \<open>b\<close> after the player has stored the C string \<open>s\<close> and its
      terminating NUL at the start; the bytes behind them stay as they were\<close>
  "buffer_store b s = take (length b) (s @ CHR 0x00 # drop (Suc (length s)) b)"

definition resize :: "string \<Rightarrow> nat \<Rightarrow> string" where
  \<comment> \<open>\<^verbatim>\<open>std::string::resize(n)\<close>: cut, or padded with NUL\<close>
  "resize s n = take n s @ replicate (n - length s) (CHR 0x00)"

definition invalid_command_msg :: string where
  "invalid_command_msg = ''lyricbar: Invalid script command!'' @ [CHR 0x0A]"

definition invalid_utf8_msg :: string where
  "invalid_utf8_msg = ''lyricbar: script output is not a valid UTF8 string!'' @ [CHR 0x0A]"

definition get_lyrics_from_script :: "host \<Rightarrow> track \<Rightarrow> string option \<times> event list" where
  \<comment> \<open>the result, and the events of the call in their order. \<open>buf\<close> and \<open>buf1\<close> are
      the C strings the two calls of the player leave at the start of the one buffer of
      4096 bytes, and \<open>buf2\<close> is that buffer, as a \<^verbatim>\<open>std::string\<close>, after
      \<^verbatim>\<open>buf.resize(command_len)\<close>\<close>
  "get_lyrics_from_script h tr =
     (let buf = conf_get_str h ''lyricbar.customcmd'' None 4096
      in if buf = [] then (None, [])
         else
           (case tf_compile h buf of
              None \<Rightarrow> (None, [TfCompile buf, Cerr invalid_command_msg])
            | Some tf_code \<Rightarrow>
                (case tf_eval h tf_code tr 4096 of
                   (command_len, buf1) \<Rightarrow>
                     if command_len < 0
                     then (None, [TfCompile buf, Cerr invalid_command_msg])
                     else
                       (let buf2 =
                              resize
                                (buffer_store (buffer_store (replicate 4096 (CHR 0x00)) buf) buf1)
                                (nat command_len)
                        in case spawn_command_line_sync h buf2 of
                             SpawnError what \<Rightarrow>
                               (None,
                                [TfCompile buf, Spawn buf2,
                                 Cerr (''lyricbar: '' @ what @ [CHR 0x0A])])
                           | Exited script_output exit_status \<Rightarrow>
                               if script_output = [] \<or> exit_status \<noteq> 0
                               then (None, [TfCompile buf, Spawn buf2])
                               else if \<not> validate h script_output
                               then (None, [TfCompile buf, Spawn buf2, Cerr invalid_utf8_msg])
                               else (Some script_output, [TfCompile buf, Spawn buf2])))))"

subsection \<open>The resolver\<close>

type_synonym provider = "host \<Rightarrow> track \<Rightarrow> string option \<times> event list"

definition providers :: "provider list" where
  "providers = [get_lyrics_from_script]"

fun provider_loop ::
  "provider list \<Rightarrow> host \<Rightarrow> track \<Rightarrow> string \<Rightarrow> string \<Rightarrow> world \<Rightarrow> bool \<times> world" where
  \<comment> \<open>the \<^verbatim>\<open>for\<close> loop of \<^verbatim>\<open>update_lyrics\<close>; \<open>True\<close> when it left the function by
      \<^verbatim>\<open>return\<close>\<close>
  "provider_loop [] h tr artist title w = (False, w)"
| "provider_loop (f # fs) h tr artist title w =
     (case f h tr of
        (Some lyrics, es) \<Rightarrow>
          (let w1 = set_lyrics tr lyrics (emit es w)
           in case save_cached_lyrics h artist title lyrics w1 of (saved, w2) \<Rightarrow> (True, w2))
      | (None, es) \<Rightarrow> provider_loop fs h tr artist title (emit es w))"

definition update_lyrics :: "host \<Rightarrow> track \<Rightarrow> world \<Rightarrow> world" where
  \<comment> \<open>\<^verbatim>\<open>_("...")\<close> is taken as the untranslated message\<close>
  "update_lyrics h tr w =
     (case get_lyrics_from_metadata h tr of
        Some lyrics \<Rightarrow> set_lyrics tr lyrics w
      | None \<Rightarrow>
          (case (pl_find_meta h tr ''artist'', pl_find_meta h tr ''title'') of
             (Some artist, Some title) \<Rightarrow>
               (case load_cached_lyrics h artist title w of
                  (Some lyrics, w1) \<Rightarrow> set_lyrics tr lyrics w1
                | (None, w1) \<Rightarrow>
                    (let w2 = set_lyrics tr ''Loading...'' w1
                     in case provider_loop providers h tr artist title w2 of
                          (True, w3) \<Rightarrow> w3
                        | (False, w3) \<Rightarrow> set_lyrics tr ''Lyrics not found'' w3))
           | _ \<Rightarrow> set_lyrics tr ''Lyrics not found'' w))"

subsection \<open>Reading a trace; example hosts and worlds\<close>

fun cerr_lines :: "event list \<Rightarrow> string list" where
  \<comment> \<open>the diagnostics among the events, in their order\<close>
  "cerr_lines [] = []"
| "cerr_lines (Cerr m # es) = m # cerr_lines es"
| "cerr_lines (e # es) = cerr_lines es"

definition demo_host :: host where
  \<comment> \<open>a track by AC/DC without a lyrics tag; the configured command prints Hello. The
      player honours the buffer sizes it is given; \<open>validate\<close> accepts ASCII only\<close>
  "demo_host =
     \<lparr>lyrics_dir = ''/home/u/.cache/deadbeef/lyrics/'',
      pl_find_meta = (\<lambda>tr k. if k = ''artist'' then Some ''AC/DC''
                              else if k = ''title'' then Some ''T.N.T'' else None),
      conf_get_str = (\<lambda>k d n. if k = ''lyricbar.customcmd'' then take (n - 1) ''echo Hello''
                               else (case d of None \<Rightarrow> [] | Some v \<Rightarrow> take (n - 1) v)),
      tf_compile = (\<lambda>s. Some s),
      tf_eval = (\<lambda>code tr n. (int (length (take (n - 1) code)), take (n - 1) code)),
      spawn_command_line_sync = (\<lambda>cmd. Exited ''Hello'' 0),
      validate = (\<lambda>s. list_all (\<lambda>c. of_char c < (128::nat)) s)\<rparr>"

definition demo_world :: world where
  \<comment> \<open>an empty cache in which every file can be written and read\<close>
  "demo_world =
     \<lparr>files = Map.empty, openable = (\<lambda>p. True), readable = (\<lambda>p. True), quota = 4096,
      trace = []\<rparr>"

section \<open>Properties\<close>

subsection \<open>Helper facts\<close>

lemma replace_map: "replace s old new = map (\<lambda>c. if c = old then new else c) s"
  by (induction s) simp_all

lemma replace_no_old: "old \<noteq> new \<Longrightarrow> old \<notin> set (replace s old new)"
  by (induction s) simp_all

lemma length_buffer_store: "length (buffer_store b s) = length b"
  by (simp add: buffer_store_def)

lemma length_resize: "length (resize s n) = n"
  by (simp add: resize_def)

lemma resize_buffer_store:
  "n = length s \<Longrightarrow> length s < length b \<Longrightarrow> resize (buffer_store b s) n = s"
  by (simp add: resize_def buffer_store_def)

lemma load_cached_lyrics_eq:
  "load_cached_lyrics h artist title w =
     (if readable w (cached_filename h artist title)
      then files w (cached_filename h artist title) else None,
      w\<lparr>trace := trace w @ [ReadFile (cached_filename h artist title)]\<rparr>)"
  by (simp add: load_cached_lyrics_def file_get_contents_def emit_def Let_def
      split: option.splits)

lemma save_cached_lyrics_eq:
  "save_cached_lyrics h artist title lyrics w =
     (let f = cached_filename h artist title in
      if openable w f
      then (True, w\<lparr>files := (files w)(f \<mapsto> take (quota w) lyrics),
                     trace := trace w @ [OpenWrite f True, WriteFile f (take (quota w) lyrics)]\<rparr>)
      else (False, w\<lparr>trace := trace w @ [OpenWrite f False,
                Cerr (''lyricbar: could not open file for writing: '' @ f @ [CHR 0x0A])]\<rparr>))"
  by (simp add: save_cached_lyrics_def ofstream_open_def ofstream_write_def emit_def Let_def)

lemma provider_loop_hit:
  "f h tr = (Some L, es) \<Longrightarrow>
     provider_loop (f # fs) h tr artist title w =
       (True, snd (save_cached_lyrics h artist title L (set_lyrics tr L (emit es w))))"
  by (simp add: Let_def split: prod.splits)

lemma update_lyrics_provider_eq:
  assumes "get_lyrics_from_metadata h tr = None"
    and "pl_find_meta h tr ''artist'' = Some artist"
    and "pl_find_meta h tr ''title'' = Some title"
    and "fst (load_cached_lyrics h artist title w) = None"
    and "get_lyrics_from_script h tr = (Some L, es)"
  shows "update_lyrics h tr w =
           snd (save_cached_lyrics h artist title L
                  (set_lyrics tr L
                     (emit es
                        (set_lyrics tr ''Loading...''
                           (w\<lparr>trace := trace w @ [ReadFile (cached_filename h artist title)]\<rparr>)))))"
proof -
  let ?w2 = "set_lyrics tr ''Loading...''
               (w\<lparr>trace := trace w @ [ReadFile (cached_filename h artist title)]\<rparr>)"
  have loop: "provider_loop providers h tr artist title ?w2 =
      (True, snd (save_cached_lyrics h artist title L (set_lyrics tr L (emit es ?w2))))"
    unfolding providers_def using assms(5) by (rule provider_loop_hit)
  have miss: "load_cached_lyrics h artist title w =
      (None, w\<lparr>trace := trace w @ [ReadFile (cached_filename h artist title)]\<rparr>)"
    using assms(4) by (simp add: load_cached_lyrics_eq split: if_splits)
  show ?thesis
    using assms(1-3) by (simp add: update_lyrics_def miss loop)
qed

lemma demo_metadata: "get_lyrics_from_metadata demo_host 0 = None"
  by (simp add: get_lyrics_from_metadata_def demo_host_def)

lemma demo_artist: "pl_find_meta demo_host 0 ''artist'' = Some ''AC/DC''"
  by (simp add: demo_host_def)

lemma demo_title: "pl_find_meta demo_host 0 ''title'' = Some ''T.N.T''"
  by (simp add: demo_host_def)

lemma demo_filename:
  "cached_filename demo_host ''AC/DC'' ''T.N.T'' = ''/home/u/.cache/deadbeef/lyrics/AC_DC-T.N.T''"
  by (simp add: cached_filename_def demo_host_def)

lemma demo_script:
  "get_lyrics_from_script demo_host 0 =
     (Some ''Hello'', [TfCompile ''echo Hello'', Spawn ''echo Hello''])"
  by (simp add: get_lyrics_from_script_def resize_buffer_store length_buffer_store
        demo_host_def Let_def)

subsection \<open>The cache key\<close>

text \<open>
  C1. The file name of a cache entry is the cache directory followed by the artist with
  every \<open>/\<close> replaced by \<open>_\<close>, a \<open>-\<close>, and the title with every \<open>/\<close> replaced by \<open>_\<close>;
  the part after the directory contains no \<open>/\<close>, whatever the artist and the title.
\<close>

theorem cached_filename_key:
  "cached_filename h artist title =
     lyrics_dir h
       @ map (\<lambda>c. if c = CHR ''/'' then CHR ''_'' else c) artist
       @ ''-''
       @ map (\<lambda>c. if c = CHR ''/'' then CHR ''_'' else c) title
   \<and> CHR ''/'' \<notin> set (drop (length (lyrics_dir h)) (cached_filename h artist title))"
proof -
  have key: "CHR ''/'' \<notin> set (replace artist (CHR ''/'') (CHR ''_'') @ ''-''
                 @ replace title (CHR ''/'') (CHR ''_''))"
    using replace_no_old [of "CHR ''/''" "CHR ''_''"] by simp
  have name: "cached_filename h artist title =
      lyrics_dir h @ (replace artist (CHR ''/'') (CHR ''_'') @ ''-''
        @ replace title (CHR ''/'') (CHR ''_''))"
    by (simp add: cached_filename_def)
  show ?thesis
    using key by (simp add: name replace_map)
qed

text \<open>The artist \<open>AC/DC\<close> and the title \<open>T.N.T\<close> give the key \<open>AC_DC-T.N.T\<close>.\<close>

theorem cached_filename_key_witness:
  "cached_filename demo_host ''AC/DC'' ''T.N.T'' = ''/home/u/.cache/deadbeef/lyrics/AC_DC-T.N.T''
   \<and> CHR ''/'' \<notin> set (drop (length (lyrics_dir demo_host))
                          (cached_filename demo_host ''AC/DC'' ''T.N.T''))"
  using cached_filename_key [of demo_host "''AC/DC''" "''T.N.T''"]
  by (simp add: demo_host_def)

subsection \<open>The resolver: a provider's answer\<close>

text \<open>
  C2, as stated, promises that after a provider has returned \<open>L\<close> a lookup of the same
  artist and title in the cache returns \<open>L\<close>. The resolver ignores the result of
  \<open>save_cached_lyrics\<close>: where the cache file cannot be opened, the text \<open>Hello\<close> is
  shown and the cache still has no entry.
\<close>

theorem update_lyrics_failed_write_counterexample:
  "get_lyrics_from_script demo_host 0 =
     (Some ''Hello'', [TfCompile ''echo Hello'', Spawn ''echo Hello''])
   \<and> SetLyrics 0 ''Hello''
       \<in> set (trace (update_lyrics demo_host 0 (demo_world\<lparr>openable := \<lambda>p. False\<rparr>)))
   \<and> fst (load_cached_lyrics demo_host ''AC/DC'' ''T.N.T''
            (update_lyrics demo_host 0 (demo_world\<lparr>openable := \<lambda>p. False\<rparr>))) = None"
proof -
  have c: "fst (load_cached_lyrics demo_host ''AC/DC'' ''T.N.T''
                 (demo_world\<lparr>openable := \<lambda>p. False\<rparr>)) = None"
    by (simp add: load_cached_lyrics_eq demo_world_def)
  note upd = update_lyrics_provider_eq [OF demo_metadata demo_artist demo_title c demo_script]
  show ?thesis
    unfolding upd
    by (simp add: demo_script save_cached_lyrics_eq load_cached_lyrics_eq set_lyrics_def
          emit_def demo_world_def Let_def)
qed

text \<open>
  C2, amended. When the track has no lyrics tag, has an artist and a title, the lookup
  in the cache returns nothing and the script provider returns \<open>L\<close>, the resolver reads
  the cache, shows \<open>Loading...\<close>, runs the provider, shows \<open>L\<close> and only then opens the
  cache file for writing, in that order. If the open succeeds it writes \<open>L\<close>, and the
  entry is what of \<open>L\<close> the device accepted; if the open fails it writes a diagnostic
  and the files are as they were. Nothing else changes. A lookup of the same artist and
  title afterwards returns \<open>L\<close> when the file could be opened, the write was complete and
  the entry can be read; it returns nothing when the file could not be opened.
\<close>

theorem update_lyrics_provider_hit:
  assumes "get_lyrics_from_metadata h tr = None"
    and "pl_find_meta h tr ''artist'' = Some artist"
    and "pl_find_meta h tr ''title'' = Some title"
    and "fst (load_cached_lyrics h artist title w) = None"
    and "get_lyrics_from_script h tr = (Some L, es)"
  shows "update_lyrics h tr w =
           (if openable w (cached_filename h artist title)
            then w\<lparr>files := (files w)(cached_filename h artist title \<mapsto> take (quota w) L),
                   trace := trace w
                     @ [ReadFile (cached_filename h artist title), SetLyrics tr ''Loading...'']
                     @ es
                     @ [SetLyrics tr L,
                        OpenWrite (cached_filename h artist title) True,
                        WriteFile (cached_filename h artist title) (take (quota w) L)]\<rparr>
            else w\<lparr>trace := trace w
                     @ [ReadFile (cached_filename h artist title), SetLyrics tr ''Loading...'']
                     @ es
                     @ [SetLyrics tr L,
                        OpenWrite (cached_filename h artist title) False,
                        Cerr (''lyricbar: could not open file for writing: ''
                                @ cached_filename h artist title @ [CHR 0x0A])]\<rparr>)
         \<and> (openable w (cached_filename h artist title) \<and> length L \<le> quota w
              \<and> readable w (cached_filename h artist title) \<longrightarrow>
              fst (load_cached_lyrics h artist title (update_lyrics h tr w)) = Some L)
         \<and> (\<not> openable w (cached_filename h artist title) \<longrightarrow>
              files (update_lyrics h tr w) = files w
              \<and> fst (load_cached_lyrics h artist title (update_lyrics h tr w)) = None)"
proof -
  have miss: "readable w (cached_filename h artist title) \<Longrightarrow>
      files w (cached_filename h artist title) = None"
    using assms(4) by (simp add: load_cached_lyrics_eq)
  show ?thesis
    using miss
    by (simp add: update_lyrics_provider_eq [OF assms] save_cached_lyrics_eq
          load_cached_lyrics_eq set_lyrics_def emit_def Let_def)
qed

text \<open>
  The scenario of the specification: AC/DC, T.N.T, a script that prints Hello; and the
  same with a cache directory that cannot be written.
\<close>

theorem update_lyrics_provider_hit_witness:
  "trace (update_lyrics demo_host 0 demo_world) =
     [ReadFile ''/home/u/.cache/deadbeef/lyrics/AC_DC-T.N.T'',
      SetLyrics 0 ''Loading...'',
      TfCompile ''echo Hello'',
      Spawn ''echo Hello'',
      SetLyrics 0 ''Hello'',
      OpenWrite ''/home/u/.cache/deadbeef/lyrics/AC_DC-T.N.T'' True,
      WriteFile ''/home/u/.cache/deadbeef/lyrics/AC_DC-T.N.T'' ''Hello'']
   \<and> files (update_lyrics demo_host 0 demo_world)
       = [''/home/u/.cache/deadbeef/lyrics/AC_DC-T.N.T'' \<mapsto> ''Hello'']
   \<and> fst (load_cached_lyrics demo_host ''AC/DC'' ''T.N.T'' (update_lyrics demo_host 0 demo_world))
       = Some ''Hello''
   \<and> files (update_lyrics demo_host 0 (demo_world\<lparr>openable := \<lambda>p. False\<rparr>)) = Map.empty"
proof -
  have 4: "fst (load_cached_lyrics demo_host ''AC/DC'' ''T.N.T'' demo_world) = None"
    by (simp add: load_cached_lyrics_eq demo_world_def)
  have 5: "fst (load_cached_lyrics demo_host ''AC/DC'' ''T.N.T''
                 (demo_world\<lparr>openable := \<lambda>p. False\<rparr>)) = None"
    by (simp add: load_cached_lyrics_eq demo_world_def)
  note ok = update_lyrics_provider_hit [OF demo_metadata demo_artist demo_title 4 demo_script]
  note ko = update_lyrics_provider_hit [OF demo_metadata demo_artist demo_title 5 demo_script]
  have w1: "update_lyrics demo_host 0 demo_world =
      demo_world\<lparr>files := [''/home/u/.cache/deadbeef/lyrics/AC_DC-T.N.T'' \<mapsto> ''Hello''],
        trace := [ReadFile ''/home/u/.cache/deadbeef/lyrics/AC_DC-T.N.T'',
          SetLyrics 0 ''Loading...'', TfCompile ''echo Hello'', Spawn ''echo Hello'',
          SetLyrics 0 ''Hello'',
          OpenWrite ''/home/u/.cache/deadbeef/lyrics/AC_DC-T.N.T'' True,
          WriteFile ''/home/u/.cache/deadbeef/lyrics/AC_DC-T.N.T'' ''Hello'']\<rparr>"
    using ok [THEN conjunct1] by (simp add: demo_filename demo_world_def)
  have t1: "trace (update_lyrics demo_host 0 demo_world) =
     [ReadFile ''/home/u/.cache/deadbeef/lyrics/AC_DC-T.N.T'',
      SetLyrics 0 ''Loading...'',
      TfCompile ''echo Hello'',
      Spawn ''echo Hello'',
      SetLyrics 0 ''Hello'',
      OpenWrite ''/home/u/.cache/deadbeef/lyrics/AC_DC-T.N.T'' True,
      WriteFile ''/home/u/.cache/deadbeef/lyrics/AC_DC-T.N.T'' ''Hello'']"
    by (simp add: w1)
  have f1: "files (update_lyrics demo_host 0 demo_world)
              = [''/home/u/.cache/deadbeef/lyrics/AC_DC-T.N.T'' \<mapsto> ''Hello'']"
    by (simp add: w1)
  have g1: "fst (load_cached_lyrics demo_host ''AC/DC'' ''T.N.T''
                  (update_lyrics demo_host 0 demo_world)) = Some ''Hello''"
    using ok [THEN conjunct2, THEN conjunct1] by (simp add: demo_world_def)
  have f2: "files (update_lyrics demo_host 0 (demo_world\<lparr>openable := \<lambda>p. False\<rparr>)) = Map.empty"
    using ko [THEN conjunct2, THEN conjunct2] by (simp add: demo_world_def)
  from t1 f1 g1 f2 show ?thesis
    by blast
qed

subsection \<open>The resolver: lyrics in the metadata\<close>

text \<open>
  C3, as stated, takes the text of a tag with a non-empty value. The code takes the first
  tag for which the player returns a pointer, whatever its value: for a track with an
  empty \<open>unsynced lyrics\<close> tag and the \<open>lyrics\<close> tag \<open>la la\<close>, the empty text is shown.
\<close>

theorem update_lyrics_empty_tag_counterexample:
  "pl_find_meta
     (demo_host\<lparr>pl_find_meta := \<lambda>tr k. if k = ''unsynced lyrics'' then Some []
                                     else if k = ''lyrics'' then Some ''la la'' else None\<rparr>)
     0 ''lyrics'' = Some ''la la''
   \<and> trace (update_lyrics
       (demo_host\<lparr>pl_find_meta := \<lambda>tr k. if k = ''unsynced lyrics'' then Some []
                                     else if k = ''lyrics'' then Some ''la la'' else None\<rparr>)
       0 demo_world) = [SetLyrics 0 []]"
  by (simp add: update_lyrics_def get_lyrics_from_metadata_def set_lyrics_def emit_def
        demo_world_def)

text \<open>
  C3, amended. Let \<open>v\<close> be the first value the player returns for the tag names
  \<open>unsynced lyrics\<close>, \<open>UNSYNCEDLYRICS\<close>, \<open>lyrics\<close>, in this order, empty or not. Then the
  resolver shows \<open>v\<close> and does nothing else: the world after it is the world before it
  with that one event added, so there is no read and no write of the cache and the files
  are the same, whatever the cache held.
\<close>

theorem update_lyrics_metadata_hit:
  assumes "List.map_filter (pl_find_meta h tr)
             [''unsynced lyrics'', ''UNSYNCEDLYRICS'', ''lyrics''] = v # vs"
  shows "update_lyrics h tr w = w\<lparr>trace := trace w @ [SetLyrics tr v]\<rparr>
         \<and> files (update_lyrics h tr w) = files w"
proof -
  have "get_lyrics_from_metadata h tr = Some v"
    using assms
    by (simp add: get_lyrics_from_metadata_def split: option.splits)
  then show ?thesis
    by (simp add: update_lyrics_def set_lyrics_def emit_def)
qed

theorem update_lyrics_metadata_hit_witness:
  "update_lyrics (demo_host\<lparr>pl_find_meta := \<lambda>tr k. if k = ''lyrics'' then Some ''la la'' else None\<rparr>)
      0 demo_world
   = demo_world\<lparr>trace := [SetLyrics 0 ''la la'']\<rparr>"
proof -
  let ?h = "demo_host\<lparr>pl_find_meta := \<lambda>tr k. if k = ''lyrics'' then Some ''la la'' else None\<rparr>"
  have "List.map_filter (pl_find_meta ?h 0) [''unsynced lyrics'', ''UNSYNCEDLYRICS'', ''lyrics'']
          = ''la la'' # []"
    by simp
  from update_lyrics_metadata_hit [OF this, of demo_world] show ?thesis
    by (simp add: demo_world_def)
qed

subsection \<open>The cache: presence\<close>

text \<open>
  C4, as stated, makes \<open>is_cached\<close> false for an empty artist or title. The code tests
  the pointers, not the strings: once lyrics have been saved for the empty artist and the
  title \<open>x\<close>, \<open>is_cached\<close> is true for them.
\<close>

theorem is_cached_empty_artist_counterexample:
  "fst (is_cached demo_host (Some []) (Some ''x'')
          (snd (save_cached_lyrics demo_host [] ''x'' ''la'' demo_world)))"
  by (simp add: is_cached_def access_path_def save_cached_lyrics_eq demo_world_def Let_def)

text \<open>
  C4, amended. \<open>is_cached\<close> is true if and only if neither pointer is null and a file
  exists at the file name derived from the two strings; it has no failure.
\<close>

theorem is_cached_iff:
  "fst (is_cached h artist title w) \<longleftrightarrow>
     (\<exists>a t. artist = Some a \<and> title = Some t \<and> files w (cached_filename h a t) \<noteq> None)"
  by (simp add: is_cached_def access_path_def split: option.splits)

theorem is_cached_iff_witness:
  "fst (is_cached demo_host (Some ''AC/DC'') (Some ''T.N.T'')
          (demo_world\<lparr>files := [''/home/u/.cache/deadbeef/lyrics/AC_DC-T.N.T'' \<mapsto> ''Hello'']\<rparr>))"
  using is_cached_iff [of demo_host "Some ''AC/DC''" "Some ''T.N.T''"
      "demo_world\<lparr>files := [''/home/u/.cache/deadbeef/lyrics/AC_DC-T.N.T'' \<mapsto> ''Hello'']\<rparr>"]
  by (simp add: demo_filename)

text \<open>
  C10. When the artist or the title is a null pointer, \<open>is_cached\<close> is false and the
  world is the one it was given: no file name has been derived and the file system has
  not been asked.
\<close>

theorem is_cached_null:
  "artist = None \<or> title = None \<Longrightarrow> is_cached h artist title w = (False, w)"
  by (auto simp add: is_cached_def split: option.splits)

theorem is_cached_null_witness:
  "is_cached demo_host None (Some ''T.N.T'') demo_world = (False, demo_world)
   \<and> is_cached demo_host (Some ''AC/DC'') None demo_world = (False, demo_world)"
  using is_cached_null [of None "Some ''T.N.T''" demo_host demo_world]
    is_cached_null [of "Some ''AC/DC''" None demo_host demo_world]
  by simp

subsection \<open>The cache: writing and reading back\<close>

text \<open>
  C5, as stated, makes \<open>save_cached_lyrics\<close> false when the write fails. The code tests
  the stream after the open only: on a device that accepts no byte the write of \<open>la\<close>
  fails, the result is true and the entry is empty.
\<close>

theorem save_cached_lyrics_failed_write_counterexample:
  "fst (save_cached_lyrics demo_host ''A'' ''T'' ''la'' (demo_world\<lparr>quota := 0\<rparr>))
   \<and> \<not> fst (ofstream_write (cached_filename demo_host ''A'' ''T'') ''la''
             (snd (ofstream_open (cached_filename demo_host ''A'' ''T'')
                     (demo_world\<lparr>quota := 0\<rparr>))))
   \<and> files (snd (save_cached_lyrics demo_host ''A'' ''T'' ''la'' (demo_world\<lparr>quota := 0\<rparr>)))
       (cached_filename demo_host ''A'' ''T'') = Some []"
  by (simp add: save_cached_lyrics_eq ofstream_write_def ofstream_open_def emit_def
        demo_world_def Let_def)

text \<open>
  C5, amended. \<open>save_cached_lyrics\<close> is true exactly when the file can be opened for
  writing. When it cannot, nothing is written: the world afterwards is the world before
  with the failed open and the diagnostic added, so an existing entry is as it was. When
  it can be opened and the write is complete, the entry is the text.
\<close>

theorem save_cached_lyrics_result:
  "fst (save_cached_lyrics h artist title lyrics w) = openable w (cached_filename h artist title)
   \<and> (\<not> openable w (cached_filename h artist title) \<longrightarrow>
        snd (save_cached_lyrics h artist title lyrics w) =
          w\<lparr>trace := trace w @ [OpenWrite (cached_filename h artist title) False,
             Cerr (''lyricbar: could not open file for writing: ''
                     @ cached_filename h artist title @ [CHR 0x0A])]\<rparr>)
   \<and> (openable w (cached_filename h artist title) \<and> length lyrics \<le> quota w \<longrightarrow>
        files (snd (save_cached_lyrics h artist title lyrics w)) =
          (files w)(cached_filename h artist title \<mapsto> lyrics))"
  by (simp add: save_cached_lyrics_eq Let_def)

theorem save_cached_lyrics_result_witness:
  "fst (save_cached_lyrics demo_host ''A'' ''T'' ''la'' demo_world)
   \<and> files (snd (save_cached_lyrics demo_host ''A'' ''T'' ''la'' demo_world))
       = [cached_filename demo_host ''A'' ''T'' \<mapsto> ''la'']
   \<and> \<not> fst (save_cached_lyrics demo_host ''A'' ''T'' ''la'' (demo_world\<lparr>openable := \<lambda>p. False\<rparr>))
   \<and> files (snd (save_cached_lyrics demo_host ''A'' ''T'' ''la''
               (demo_world\<lparr>openable := \<lambda>p. False\<rparr>))) = Map.empty"
  using save_cached_lyrics_result [of demo_host "''A''" "''T''" "''la''" demo_world]
    save_cached_lyrics_result [of demo_host "''A''" "''T''" "''la''"
      "demo_world\<lparr>openable := \<lambda>p. False\<rparr>"]
  by (simp add: demo_world_def)

text \<open>
  C6, as stated, holds for every save. Where the file cannot be opened the save changes
  nothing, and the lookup that follows returns the old entry, not the text.
\<close>

theorem save_then_load_counterexample:
  "fst (load_cached_lyrics demo_host ''A'' ''T''
          (snd (save_cached_lyrics demo_host ''A'' ''T'' ''new''
                  (demo_world\<lparr>files := [cached_filename demo_host ''A'' ''T'' \<mapsto> ''old''],
                               openable := \<lambda>p. False\<rparr>))))
   = Some ''old''"
  by (simp add: save_cached_lyrics_eq load_cached_lyrics_eq demo_world_def Let_def)

text \<open>
  C6, amended. When the file can be opened for writing, the write is complete and the
  entry can be read, a save followed at once by a lookup of the same artist and title
  returns exactly the text saved, byte for byte.
\<close>

theorem save_then_load:
  assumes "openable w (cached_filename h artist title)"
    and "length text \<le> quota w"
    and "readable w (cached_filename h artist title)"
  shows "fst (load_cached_lyrics h artist title
                (snd (save_cached_lyrics h artist title text w))) = Some text"
  using assms by (simp add: save_cached_lyrics_eq load_cached_lyrics_eq Let_def)

theorem save_then_load_witness:
  "fst (load_cached_lyrics demo_host ''AC/DC'' ''T.N.T''
          (snd (save_cached_lyrics demo_host ''AC/DC'' ''T.N.T'' ''Hello'' demo_world)))
   = Some ''Hello''"
proof -
  have 1: "openable demo_world (cached_filename demo_host ''AC/DC'' ''T.N.T'')"
    by (simp add: demo_world_def)
  have 2: "length ''Hello'' \<le> quota demo_world"
    by (simp add: demo_world_def)
  have 3: "readable demo_world (cached_filename demo_host ''AC/DC'' ''T.N.T'')"
    by (simp add: demo_world_def)
  from save_then_load [OF 1 2 3] show ?thesis .
qed

text \<open>
  The third condition is needed: for an entry that cannot be read the save succeeds and
  the lookup that follows returns nothing.
\<close>

lemma save_then_load_unreadable:
  "fst (save_cached_lyrics demo_host ''A'' ''T'' ''new'' (demo_world\<lparr>readable := \<lambda>p. False\<rparr>))
   \<and> fst (load_cached_lyrics demo_host ''A'' ''T''
            (snd (save_cached_lyrics demo_host ''A'' ''T'' ''new''
                    (demo_world\<lparr>readable := \<lambda>p. False\<rparr>)))) = None"
  by (simp add: save_cached_lyrics_eq load_cached_lyrics_eq demo_world_def Let_def)

subsection \<open>The script provider\<close>

text \<open>
  C7. For every outcome of the subprocess, output \<open>out\<close> and exit status \<open>st\<close>, the
  provider returns \<open>out\<close> when \<open>st\<close> is zero, \<open>out\<close> is not empty and \<open>out\<close> is valid
  UTF-8, and nothing otherwise; it returns a text only in that case. The diagnostics of
  such a call are the one line about invalid UTF-8 when the encoding alone is wrong, and
  none in the other cases; that line is not the one for a malformed script.
\<close>

theorem script_output_acceptance:
  "(\<forall>cmd out st.
       Spawn cmd \<in> set (snd (get_lyrics_from_script h tr))
       \<and> spawn_command_line_sync h cmd = Exited out st \<longrightarrow>
         fst (get_lyrics_from_script h tr) =
           (if st = 0 \<and> out \<noteq> [] \<and> validate h out then Some out else None)
         \<and> cerr_lines (snd (get_lyrics_from_script h tr)) =
           (if st = 0 \<and> out \<noteq> [] \<and> \<not> validate h out then [invalid_utf8_msg] else []))
   \<and> (\<forall>L. fst (get_lyrics_from_script h tr) = Some L \<longrightarrow>
         (\<exists>cmd. Spawn cmd \<in> set (snd (get_lyrics_from_script h tr))
                \<and> spawn_command_line_sync h cmd = Exited L 0)
         \<and> L \<noteq> [] \<and> validate h L)
   \<and> invalid_utf8_msg \<noteq> invalid_command_msg"
  by (auto simp add: get_lyrics_from_script_def Let_def invalid_utf8_msg_def
        invalid_command_msg_def
      split: option.splits prod.splits spawn_result.splits if_splits)

text \<open>
  The output \<open>Hello\<close> with status 0 is accepted; a byte that is not UTF-8 is refused with
  the diagnostic; \<open>Hello\<close> with a status that is not 0 is refused without one.
\<close>

theorem script_output_acceptance_witness:
  "fst (get_lyrics_from_script demo_host 0) = Some ''Hello''
   \<and> cerr_lines (snd (get_lyrics_from_script demo_host 0)) = []
   \<and> fst (get_lyrics_from_script
            (demo_host\<lparr>spawn_command_line_sync := \<lambda>cmd. Exited [CHR 0xFF] 0\<rparr>) 0) = None
   \<and> cerr_lines (snd (get_lyrics_from_script
            (demo_host\<lparr>spawn_command_line_sync := \<lambda>cmd. Exited [CHR 0xFF] 0\<rparr>) 0))
       = [invalid_utf8_msg]
   \<and> fst (get_lyrics_from_script
            (demo_host\<lparr>spawn_command_line_sync := \<lambda>cmd. Exited ''Hello'' 256\<rparr>) 0) = None
   \<and> cerr_lines (snd (get_lyrics_from_script
            (demo_host\<lparr>spawn_command_line_sync := \<lambda>cmd. Exited ''Hello'' 256\<rparr>) 0)) = []"
proof -
  let ?bad = "demo_host\<lparr>spawn_command_line_sync := \<lambda>cmd. Exited [CHR 0xFF] 0\<rparr>"
  let ?fail = "demo_host\<lparr>spawn_command_line_sync := \<lambda>cmd. Exited ''Hello'' 256\<rparr>"
  have s1: "Spawn ''echo Hello'' \<in> set (snd (get_lyrics_from_script demo_host 0))"
    by (simp add: get_lyrics_from_script_def resize_buffer_store length_buffer_store
          demo_host_def Let_def)
  have s2: "Spawn ''echo Hello'' \<in> set (snd (get_lyrics_from_script ?bad 0))"
    by (simp add: get_lyrics_from_script_def resize_buffer_store length_buffer_store
          demo_host_def Let_def)
  have s3: "Spawn ''echo Hello'' \<in> set (snd (get_lyrics_from_script ?fail 0))"
    by (simp add: get_lyrics_from_script_def resize_buffer_store length_buffer_store
          demo_host_def Let_def)
  have o1: "spawn_command_line_sync demo_host ''echo Hello'' = Exited ''Hello'' 0"
    by (simp add: demo_host_def)
  have o2: "spawn_command_line_sync ?bad ''echo Hello'' = Exited [CHR 0xFF] 0"
    by simp
  have o3: "spawn_command_line_sync ?fail ''echo Hello'' = Exited ''Hello'' 256"
    by simp
  have v1: "validate demo_host ''Hello''"
    by (simp add: demo_host_def)
  have v2: "\<not> validate ?bad [CHR 0xFF]"
    by (simp add: demo_host_def)
  note acc1 = script_output_acceptance [of demo_host 0, THEN conjunct1, rule_format,
      OF conjI [OF s1 o1]]
  note acc2 = script_output_acceptance [of ?bad 0, THEN conjunct1, rule_format,
      OF conjI [OF s2 o2]]
  note acc3 = script_output_acceptance [of ?fail 0, THEN conjunct1, rule_format,
      OF conjI [OF s3 o3]]
  from acc1 v1
  have r1: "fst (get_lyrics_from_script demo_host 0) = Some ''Hello''
            \<and> cerr_lines (snd (get_lyrics_from_script demo_host 0)) = []"
    by simp
  from acc2 v2
  have r2: "fst (get_lyrics_from_script ?bad 0) = None
            \<and> cerr_lines (snd (get_lyrics_from_script ?bad 0)) = [invalid_utf8_msg]"
    by simp
  from acc3
  have r3: "fst (get_lyrics_from_script ?fail 0) = None
            \<and> cerr_lines (snd (get_lyrics_from_script ?fail 0)) = []"
    by simp
  from r1 r2 r3 show ?thesis by simp
qed

text \<open>
  C8. When the command template is empty or unset, so that the player leaves the empty
  string in the buffer, the provider returns nothing and no event happens: nothing is
  compiled, no subprocess is spawned and no diagnostic is written.
\<close>

theorem script_disabled:
  "conf_get_str h ''lyricbar.customcmd'' None 4096 = [] \<Longrightarrow>
     get_lyrics_from_script h tr = (None, [])"
  by (simp add: get_lyrics_from_script_def)

theorem script_disabled_witness:
  "get_lyrics_from_script
     (demo_host\<lparr>conf_get_str := \<lambda>k d n. case d of None \<Rightarrow> [] | Some v \<Rightarrow> take (n - 1) v\<rparr>) 0
   = (None, [])"
proof -
  let ?h = "demo_host\<lparr>conf_get_str := \<lambda>k d n. case d of None \<Rightarrow> [] | Some v \<Rightarrow> take (n - 1) v\<rparr>"
  have "conf_get_str ?h ''lyricbar.customcmd'' None 4096 = []"
    by simp
  from script_disabled [OF this] show ?thesis .
qed

text \<open>
  C9. The provider hands the player a buffer of 4096 bytes for the command template and
  the same buffer, with the same size, for the expanded command. With a player that
  honours the size (it leaves the first 4095 bytes of the configured template \<open>t\<close>, and
  evaluation returns a length below the size), whatever is compiled is \<open>t\<close> cut to 4095
  bytes, a template longer than the buffer is compiled in that shortened form, and every
  command that is spawned is shorter than 4096 bytes.
\<close>

theorem script_buffer_bounds:
  assumes "conf_get_str h ''lyricbar.customcmd'' None 4096 = take 4095 t"
    and "\<forall>code. fst (tf_eval h code tr 4096) < 4096"
  shows "(\<forall>s. TfCompile s \<in> set (snd (get_lyrics_from_script h tr)) \<longrightarrow>
             s = take 4095 t \<and> length s < 4096)
       \<and> (4096 < length t \<longrightarrow>
             TfCompile (take 4095 t) \<in> set (snd (get_lyrics_from_script h tr))
             \<and> length (take 4095 t) < length t)
       \<and> (\<forall>c. Spawn c \<in> set (snd (get_lyrics_from_script h tr)) \<longrightarrow> length c < 4096)"
proof -
  have len: "\<And>code n s. tf_eval h code tr 4096 = (n, s) \<Longrightarrow> n < 4096"
    using assms(2) by (metis fst_conv)
  have nonempty: "4096 < length t \<Longrightarrow> take 4095 t \<noteq> []"
    by auto
  show ?thesis
    using nonempty
    by (auto simp add: get_lyrics_from_script_def Let_def assms(1) length_resize
        split: option.splits prod.splits spawn_result.splits if_splits dest!: len)
qed

text \<open>A template of 5000 bytes and an expansion of 6000 bytes, with such a player.\<close>

theorem script_buffer_bounds_witness:
  "TfCompile (replicate 4095 (CHR ''x''))
     \<in> set (snd (get_lyrics_from_script
                 (demo_host\<lparr>conf_get_str := \<lambda>k d n. take (n - 1) (replicate 5000 (CHR ''x'')),
                              tf_eval := \<lambda>code tr n. (int (min 6000 (n - 1)),
                                           replicate (min 6000 (n - 1)) (CHR ''y''))\<rparr>) 0))
   \<and> Spawn (replicate 4095 (CHR ''y''))
     \<in> set (snd (get_lyrics_from_script
                 (demo_host\<lparr>conf_get_str := \<lambda>k d n. take (n - 1) (replicate 5000 (CHR ''x'')),
                              tf_eval := \<lambda>code tr n. (int (min 6000 (n - 1)),
                                           replicate (min 6000 (n - 1)) (CHR ''y''))\<rparr>) 0))
   \<and> length (replicate 4095 (CHR ''y'')) < 4096"
proof -
  let ?h = "demo_host\<lparr>conf_get_str := \<lambda>k d n. take (n - 1) (replicate 5000 (CHR ''x'')),
                       tf_eval := \<lambda>code tr n. (int (min 6000 (n - 1)),
                                    replicate (min 6000 (n - 1)) (CHR ''y''))\<rparr>"
  have c: "conf_get_str ?h ''lyricbar.customcmd'' None 4096
             = take 4095 (replicate 5000 (CHR ''x''))"
    by simp
  have e: "\<forall>code. fst (tf_eval ?h code 0 4096) < 4096"
    by simp
  have l: "4096 < length (replicate 5000 (CHR ''x''))"
    by simp
  have s: "Spawn (replicate 4095 (CHR ''y'')) \<in> set (snd (get_lyrics_from_script ?h 0))"
    by (simp add: get_lyrics_from_script_def resize_buffer_store length_buffer_store
          demo_host_def Let_def)
  note b2 = script_buffer_bounds [OF c e, THEN conjunct2, THEN conjunct1, rule_format, OF l]
  note b3 = script_buffer_bounds [OF c e, THEN conjunct2, THEN conjunct2, rule_format, OF s]
  from b2 b3 s show ?thesis
    by simp
qed

end
